theory Spec2Isabelle
  imports Main "HOL-Library.Sublist"
begin

section \<open>Python values, strings and errors\<close>

text \<open>
  The contact manager of \<^verbatim>\<open>bot4.py\<close> stores dynamically typed values in its fields.
  The values the program tells apart are \<^verbatim>\<open>None\<close>, strings and \<^verbatim>\<open>datetime.date\<close>
  objects, so these are the values of the model. A string is a list of code points
  below 256; on that range \<^verbatim>\<open>str.isdigit\<close> and \<^verbatim>\<open>str.lower\<close> are modelled exactly.
\<close>

datatype date = Date (year: nat) (month: nat) (day: nat)

datatype pyval = PNone | PStr string | PDate date

datatype py_error =
    ValueError string
  | AttributeError
  | TypeError
  | KeyError
  | StopIteration
  | OSError
  | UnpicklingError

text \<open>\<^verbatim>\<open>str.isdigit\<close>: the ASCII digits and the superscript digits U+00B2, U+00B3, U+00B9;
  false on the empty string.\<close>

definition isdigit_char :: "char \<Rightarrow> bool" where
  "isdigit_char c =
     (let n = (of_char c :: nat)
      in (48 \<le> n \<and> n \<le> 57) \<or> n = 178 \<or> n = 179 \<or> n = 185)"

definition isdigit :: "string \<Rightarrow> bool" where
  "isdigit s = (s \<noteq> [] \<and> list_all isdigit_char s)"

text \<open>\<^verbatim>\<open>str.lower\<close>: A-Z and the upper-case letters U+00C0..U+00DE (without the
  multiplication sign U+00D7) move up by 32.\<close>

definition lower_char :: "char \<Rightarrow> char" where
  "lower_char c =
     (let n = (of_char c :: nat)
      in if (65 \<le> n \<and> n \<le> 90) \<or> (192 \<le> n \<and> n \<le> 222 \<and> n \<noteq> 215)
         then char_of (n + 32) else c)"

definition lower :: "string \<Rightarrow> string" where
  "lower s = map lower_char s"

text \<open>\<^verbatim>\<open>sub in s\<close> on strings: \<^verbatim>\<open>sub\<close> occurs in \<^verbatim>\<open>s\<close> at some position.\<close>

fun startswith :: "string \<Rightarrow> string \<Rightarrow> bool" where
  "startswith s [] = True"
| "startswith [] (c # cs) = False"
| "startswith (d # ds) (c # cs) = (d = c \<and> startswith ds cs)"

fun str_contains :: "string \<Rightarrow> string \<Rightarrow> bool" where
  "str_contains [] sub = (sub = [])"
| "str_contains (c # cs) sub = (startswith (c # cs) sub \<or> str_contains cs sub)"

text \<open>\<^verbatim>\<open>date.isoformat\<close>, which is \<^verbatim>\<open>str\<close> of a date: \<^verbatim>\<open>%04d-%02d-%02d\<close>.\<close>

definition digit_char :: "nat \<Rightarrow> char" where
  "digit_char n = char_of (48 + n mod 10)"

definition isoformat :: "date \<Rightarrow> string" where
  "isoformat d =
     [digit_char (year d div 1000), digit_char (year d div 100),
      digit_char (year d div 10), digit_char (year d)] @ ''-'' @
     [digit_char (month d div 10), digit_char (month d)] @ ''-'' @
     [digit_char (day d div 10), digit_char (day d)]"

text \<open>\<^verbatim>\<open>str(v)\<close> and the truth value of \<^verbatim>\<open>v\<close> in a condition.\<close>

fun py_str :: "pyval \<Rightarrow> string" where
  "py_str PNone = ''None''"
| "py_str (PStr s) = s"
| "py_str (PDate d) = isoformat d"

fun truthy :: "pyval \<Rightarrow> bool" where
  "truthy PNone = False"
| "truthy (PStr s) = (s \<noteq> [])"
| "truthy (PDate d) = True"

section \<open>Fields\<close>

text \<open>
  \<^verbatim>\<open>Field.__init__\<close> stores its argument as it is, and \<^verbatim>\<open>Name\<close>, \<^verbatim>\<open>Phone\<close> and
  \<^verbatim>\<open>Birthday\<close> inherit it (the \<^verbatim>\<open>__init__\<close> of \<^verbatim>\<open>Phone\<close> and \<^verbatim>\<open>Birthday\<close> only call
  it). So constructing a field is the datatype constructor itself: no check runs.
\<close>

datatype Name = Name pyval
datatype Phone = Phone pyval
datatype Birthday = Birthday pyval

fun Name_get_value :: "Name \<Rightarrow> pyval" where
  "Name_get_value (Name v) = v"

fun Phone_get_value :: "Phone \<Rightarrow> pyval" where
  "Phone_get_value (Phone v) = v"

fun Birthday_get_value :: "Birthday \<Rightarrow> pyval" where
  "Birthday_get_value (Birthday v) = v"

definition Name_str :: "Name \<Rightarrow> string" where
  "Name_str n = py_str (Name_get_value n)"

definition Phone_str :: "Phone \<Rightarrow> string" where
  "Phone_str p = py_str (Phone_get_value p)"

text \<open>\<^verbatim>\<open>Field.validate\<close> does nothing; \<^verbatim>\<open>Phone.validate\<close> runs its three checks in the
  order of the source.\<close>

definition Name_validate :: "pyval \<Rightarrow> py_error + unit" where
  "Name_validate v = Inr ()"

fun Phone_validate :: "pyval \<Rightarrow> py_error + unit" where
  "Phone_validate PNone = Inr ()"
| "Phone_validate (PDate d) = Inl (ValueError ''Phone must be a string'')"
| "Phone_validate (PStr s) =
     (if \<not> isdigit s then Inl (ValueError ''Phone must contain only digits'')
      else if length s \<noteq> 10 then Inl (ValueError ''Phone must be 10 digits long'')
      else Inr ())"

text \<open>\<^verbatim>\<open>Birthday.validate\<close> hands a value that is not \<^verbatim>\<open>None\<close> to
  \<^verbatim>\<open>datetime.datetime.strptime(value, '%Y-%m-%d')\<close>. The parser is the standard
  library's; the model takes the set of strings it accepts as the parameter
  \<open>parses\<close>. A value that is not a string makes \<^verbatim>\<open>strptime\<close> raise \<^verbatim>\<open>TypeError\<close>,
  which the \<^verbatim>\<open>except ValueError\<close> does not catch.\<close>

fun Birthday_validate :: "(string \<Rightarrow> bool) \<Rightarrow> pyval \<Rightarrow> py_error + unit" where
  "Birthday_validate parses PNone = Inr ()"
| "Birthday_validate parses (PDate d) = Inl TypeError"
| "Birthday_validate parses (PStr s) =
     (if parses s then Inr ()
      else Inl (ValueError (''Invalid date format. Use '' @ [CHR 0x27] @ ''YYYY-MM-DD'' @ [CHR 0x27])))"

text \<open>\<^verbatim>\<open>Field.set_value\<close>: validate, then assign. When \<^verbatim>\<open>validate\<close> raises, the
  assignment is not reached and the object keeps its value.\<close>

definition Name_set_value :: "Name \<Rightarrow> pyval \<Rightarrow> py_error + Name" where
  "Name_set_value n v = (case Name_validate v of Inl e \<Rightarrow> Inl e | Inr u \<Rightarrow> Inr (Name v))"

definition Phone_set_value :: "Phone \<Rightarrow> pyval \<Rightarrow> py_error + Phone" where
  "Phone_set_value p v = (case Phone_validate v of Inl e \<Rightarrow> Inl e | Inr u \<Rightarrow> Inr (Phone v))"

definition Birthday_set_value :: "(string \<Rightarrow> bool) \<Rightarrow> Birthday \<Rightarrow> pyval \<Rightarrow> py_error + Birthday" where
  "Birthday_set_value parses b v =
     (case Birthday_validate parses v of Inl e \<Rightarrow> Inl e | Inr u \<Rightarrow> Inr (Birthday v))"

section \<open>Records\<close>

record Record =
  name :: Name
  phones :: "Phone list"
  birthday :: Birthday

definition add_phone :: "Record \<Rightarrow> pyval \<Rightarrow> Record" where
  "add_phone r phone = r\<lparr>phones := phones r @ [Phone phone]\<rparr>"

definition Record_init :: "pyval \<Rightarrow> pyval \<Rightarrow> pyval \<Rightarrow> Record" where
  "Record_init nm phone bday =
     (let r = \<lparr>name = Name nm, phones = [], birthday = Birthday bday\<rparr>
      in if truthy phone then add_phone r phone else r)"

definition remove_phone :: "Record \<Rightarrow> pyval \<Rightarrow> Record" where
  "remove_phone r phone = r\<lparr>phones := filter (\<lambda>p. PStr (Phone_str p) \<noteq> phone) (phones r)\<rparr>"



section \<open>Calendar dates\<close>

text \<open>
  \<^verbatim>\<open>datetime.date\<close> as far as \<^verbatim>\<open>days_to_birthday\<close> uses it: the constructor, which
  raises \<^verbatim>\<open>ValueError\<close> on fields out of range, the comparison, and the difference in
  days, which is the difference of the proleptic Gregorian ordinals. The text of the
  library's messages is shortened.
\<close>

definition is_leap :: "nat \<Rightarrow> bool" where
  "is_leap y = (y mod 4 = 0 \<and> (y mod 100 \<noteq> 0 \<or> y mod 400 = 0))"

definition days_in_month :: "nat \<Rightarrow> nat \<Rightarrow> nat" where
  "days_in_month y m =
     (if m = 2 \<and> is_leap y then 29
      else [31, 28, 31, 30, 31, 30, 31, 31, 30, 31, 30, 31] ! (m - 1))"

definition days_before_year :: "nat \<Rightarrow> nat" where
  "days_before_year y = (let p = y - 1 in p * 365 + p div 4 - p div 100 + p div 400)"

definition days_before_month :: "nat \<Rightarrow> nat \<Rightarrow> nat" where
  "days_before_month y m =
     [0, 31, 59, 90, 120, 151, 181, 212, 243, 273, 304, 334] ! (m - 1)
       + (if m > 2 \<and> is_leap y then 1 else 0)"

definition toordinal :: "date \<Rightarrow> nat" where
  "toordinal d = days_before_year (year d) + days_before_month (year d) (month d) + day d"

definition date_new :: "nat \<Rightarrow> nat \<Rightarrow> nat \<Rightarrow> py_error + date" where
  "date_new y m d =
     (if \<not> (1 \<le> y \<and> y \<le> 9999) then Inl (ValueError ''year is out of range'')
      else if \<not> (1 \<le> m \<and> m \<le> 12) then Inl (ValueError ''month must be in 1..12'')
      else if \<not> (1 \<le> d \<and> d \<le> days_in_month y m)
        then Inl (ValueError ''day is out of range for month'')
      else Inr (Date y m d))"

definition date_gt :: "date \<Rightarrow> date \<Rightarrow> bool" where
  "date_gt a b =
     (year a > year b \<or> (year a = year b \<and>
       (month a > month b \<or> (month a = month b \<and> day a > day b))))"

definition days_between :: "date \<Rightarrow> date \<Rightarrow> int" where
  "days_between a b = int (toordinal a) - int (toordinal b)"

text \<open>
  \<^verbatim>\<open>Record.days_to_birthday\<close>, with the value of \<^verbatim>\<open>datetime.date.today()\<close> as the
  argument \<open>today\<close>. The stored birthday is read through its \<^verbatim>\<open>month\<close> and
  \<^verbatim>\<open>day\<close> attributes, which a string does not have.
\<close>

definition days_to_birthday :: "date \<Rightarrow> Record \<Rightarrow> py_error + int option" where
  "days_to_birthday today r =
     (let v = Birthday_get_value (birthday r)
      in if truthy v then
           (case v of
              PNone \<Rightarrow> Inl AttributeError
            | PStr s \<Rightarrow> Inl AttributeError
            | PDate b \<Rightarrow>
                (case date_new (year today) (month b) (day b) of
                   Inl e \<Rightarrow> Inl e
                 | Inr next_birthday \<Rightarrow>
                     if date_gt today next_birthday
                     then (case date_new (year today + 1) (month b) (day b) of
                             Inl e \<Rightarrow> Inl e
                           | Inr next_birthday' \<Rightarrow> Inr (Some (days_between next_birthday' today)))
                     else Inr (Some (days_between next_birthday today))))
         else Inr None)"

section \<open>The address book\<close>

text \<open>
  A Python \<^verbatim>\<open>dict\<close> keeps its keys in insertion order, and assigning to a key that is
  present keeps the key's place: an association list with distinct keys.
\<close>

type_synonym pydict = "(pyval \<times> Record) list"

fun dict_set :: "pydict \<Rightarrow> pyval \<Rightarrow> Record \<Rightarrow> pydict" where
  "dict_set [] k v = [(k, v)]"
| "dict_set ((k', v') # d) k v =
     (if k' = k then (k', v) # d else (k', v') # dict_set d k v)"

definition dict_del :: "pydict \<Rightarrow> pyval \<Rightarrow> pydict" where
  "dict_del d k = filter (\<lambda>kv. fst kv \<noteq> k) d"

definition dict_keys :: "pydict \<Rightarrow> pyval list" where
  "dict_keys d = map fst d"

definition dict_values :: "pydict \<Rightarrow> Record list" where
  "dict_values d = map snd d"

text \<open>The three attributes that \<^verbatim>\<open>__iter__\<close> creates together; before the first
  \<^verbatim>\<open>__iter__\<close> the object has none of them.\<close>

record cursor =
  iter_index :: nat
  page_size :: nat
  keys :: "pyval list"

record AddressBook =
  data :: pydict
  cursor :: "cursor option"

definition AddressBook_init :: AddressBook where
  "AddressBook_init = \<lparr>data = [], cursor = None\<rparr>"

definition add_record :: "AddressBook \<Rightarrow> Record \<Rightarrow> AddressBook" where
  "add_record b r = b\<lparr>data := dict_set (data b) (Name_get_value (name r)) r\<rparr>"

definition remove_record :: "AddressBook \<Rightarrow> pyval \<Rightarrow> AddressBook" where
  "remove_record b nm =
     (if List.member (dict_keys (data b)) nm then b\<lparr>data := dict_del (data b) nm\<rparr> else b)"

text \<open>\<^verbatim>\<open>find_records_by_name\<close>: the list comprehension calls \<^verbatim>\<open>lower\<close> on the query and
  on the record's name for every record; a value that is not a string has no such
  method.\<close>

fun find_by_name_loop :: "Record list \<Rightarrow> pyval \<Rightarrow> py_error + Record list" where
  "find_by_name_loop [] q = Inr []"
| "find_by_name_loop (r # rs) q =
     (case q of
        PStr qs \<Rightarrow>
          (case Name_get_value (name r) of
             PStr ns \<Rightarrow>
               (case find_by_name_loop rs q of
                  Inl e \<Rightarrow> Inl e
                | Inr out \<Rightarrow> Inr (if str_contains (lower ns) (lower qs) then r # out else out))
           | PNone \<Rightarrow> Inl AttributeError
           | PDate d \<Rightarrow> Inl AttributeError)
      | PNone \<Rightarrow> Inl AttributeError
      | PDate d \<Rightarrow> Inl AttributeError)"

definition find_records_by_name :: "AddressBook \<Rightarrow> pyval \<Rightarrow> py_error + Record list" where
  "find_records_by_name b q = find_by_name_loop (dict_values (data b)) q"

text \<open>\<^verbatim>\<open>find_records_by_phone\<close>: \<^verbatim>\<open>any\<close> stops at the first phone that contains the
  query; \<^verbatim>\<open>phone in str(p)\<close> raises \<^verbatim>\<open>TypeError\<close> when the query is not a string.\<close>

fun any_phone :: "Phone list \<Rightarrow> pyval \<Rightarrow> py_error + bool" where
  "any_phone [] q = Inr False"
| "any_phone (p # ps) q =
     (case q of
        PStr qs \<Rightarrow> if str_contains (Phone_str p) qs then Inr True else any_phone ps q
      | PNone \<Rightarrow> Inl TypeError
      | PDate d \<Rightarrow> Inl TypeError)"

fun find_by_phone_loop :: "Record list \<Rightarrow> pyval \<Rightarrow> py_error + Record list" where
  "find_by_phone_loop [] q = Inr []"
| "find_by_phone_loop (r # rs) q =
     (case any_phone (phones r) q of
        Inl e \<Rightarrow> Inl e
      | Inr hit \<Rightarrow>
          (case find_by_phone_loop rs q of
             Inl e \<Rightarrow> Inl e
           | Inr out \<Rightarrow> Inr (if hit then r # out else out)))"

definition find_records_by_phone :: "AddressBook \<Rightarrow> pyval \<Rightarrow> py_error + Record list" where
  "find_records_by_phone b q = find_by_phone_loop (dict_values (data b)) q"

subsection \<open>Pages\<close>

definition iter :: "AddressBook \<Rightarrow> AddressBook" where
  "iter b = b\<lparr>cursor := Some \<lparr>iter_index = 0, page_size = 5, keys = dict_keys (data b)\<rparr>\<rparr>"

fun getitems :: "pydict \<Rightarrow> pyval list \<Rightarrow> py_error + Record list" where
  "getitems d [] = Inr []"
| "getitems d (k # ks) =
     (case map_of d k of
        None \<Rightarrow> Inl KeyError
      | Some r \<Rightarrow> (case getitems d ks of Inl e \<Rightarrow> Inl e | Inr rs \<Rightarrow> Inr (r # rs)))"

definition "next" :: "AddressBook \<Rightarrow> py_error + (Record list \<times> AddressBook)" where
  "next b =
     (case cursor b of
        None \<Rightarrow> Inl AttributeError
      | Some c \<Rightarrow>
          if iter_index c \<ge> length (keys c) then Inl StopIteration
          else (case getitems (data b) (take (page_size c) (drop (iter_index c) (keys c))) of
                  Inl e \<Rightarrow> Inl e
                | Inr records \<Rightarrow>
                    Inr (records, b\<lparr>cursor := Some (c\<lparr>iter_index := iter_index c + page_size c\<rparr>)\<rparr>)))"

text \<open>
  A \<^verbatim>\<open>for\<close> loop over the address book calls \<^verbatim>\<open>__iter__\<close> once and then \<^verbatim>\<open>__next__\<close>
  until it raises \<^verbatim>\<open>StopIteration\<close>. The loop gets fuel: \<open>None\<close> is a loop that has
  not ended when the fuel is used up.
\<close>

fun next_loop :: "nat \<Rightarrow> AddressBook \<Rightarrow> (py_error + Record list list \<times> AddressBook) option" where
  "next_loop 0 b = None"
| "next_loop (Suc fuel) b =
     (case next b of
        Inl StopIteration \<Rightarrow> Some (Inr ([], b))
      | Inl e \<Rightarrow> Some (Inl e)
      | Inr (records, b') \<Rightarrow>
          (case next_loop fuel b' of
             None \<Rightarrow> None
           | Some (Inl e) \<Rightarrow> Some (Inl e)
           | Some (Inr (pages, b'')) \<Rightarrow> Some (Inr (records # pages, b''))))"

definition for_pages :: "nat \<Rightarrow> AddressBook \<Rightarrow> (py_error + Record list list \<times> AddressBook) option" where
  "for_pages fuel b = next_loop fuel (iter b)"

subsection \<open>Saving and loading\<close>

text \<open>
  The disk maps a path to a file's content, or to \<open>Locked\<close> when \<^verbatim>\<open>open\<close> raises an
  \<^verbatim>\<open>OSError\<close> other than \<^verbatim>\<open>FileNotFoundError\<close> there; a path that is not mapped
  does not exist. \<^verbatim>\<open>pickle\<close> is the standard library's: \<open>dumps\<close> and \<open>loads\<close> are
  parameters of the model.
\<close>

datatype 'b node = File 'b | Locked

type_synonym 'b disk = "string \<Rightarrow> 'b node option"

definition save_to_file ::
  "(pydict \<Rightarrow> 'b) \<Rightarrow> AddressBook \<Rightarrow> string \<Rightarrow> 'b disk \<Rightarrow> py_error + 'b disk" where
  "save_to_file dumps b filename dsk =
     (case dsk filename of
        Some Locked \<Rightarrow> Inl OSError
      | _ \<Rightarrow> Inr (dsk(filename \<mapsto> File (dumps (data b)))))"

definition load_from_file ::
  "('b \<Rightarrow> py_error + pydict) \<Rightarrow> AddressBook \<Rightarrow> string \<Rightarrow> 'b disk \<Rightarrow> py_error + AddressBook" where
  "load_from_file loads b filename dsk =
     (case dsk filename of
        None \<Rightarrow> Inr (b\<lparr>data := []\<rparr>)
      | Some Locked \<Rightarrow> Inl OSError
      | Some (File bytes) \<Rightarrow>
          (case loads bytes of Inl e \<Rightarrow> Inl e | Inr d \<Rightarrow> Inr (b\<lparr>data := d\<rparr>)))"

section \<open>Reference notions and example data\<close>

text \<open>\<^verbatim>\<open>isinstance(v, str)\<close>.\<close>

fun is_str :: "pyval \<Rightarrow> bool" where
  "is_str (PStr s) = True"
| "is_str PNone = False"
| "is_str (PDate d) = False"

text \<open>
  The specification's "contains the query as a case-insensitive substring": some
  contiguous part of \<open>s\<close> equals the query once both are put in lower case. The
  case-sensitive notion is \<^const>\<open>sublist\<close>.
\<close>

definition contains_ignoring_case :: "string \<Rightarrow> string \<Rightarrow> bool" where
  "contains_ignoring_case s q = list_ex (\<lambda>t. lower t = lower q) (sublists s)"

text \<open>The records of the specification's scenarios.\<close>

definition alice :: Record where
  "alice = Record_init (PStr ''Alice'') (PStr ''5551234567'') (PStr ''1990-05-10'')"

definition carol :: Record where
  "carol = Record_init (PStr ''Carol'') PNone PNone"

definition bob1 :: Record where
  "bob1 = Record_init (PStr ''Bob'') (PStr ''1111111111'') PNone"

definition bob2 :: Record where
  "bob2 = Record_init (PStr ''Bob'') (PStr ''2222222222'') PNone"

definition example_book :: AddressBook where
  "example_book = add_record (add_record (add_record AddressBook_init alice) carol) bob1"

text \<open>The specification's pages: a list cut into consecutive pieces of \<open>n\<close> elements,
  the last one shorter when the length is not a multiple of \<open>n\<close>.\<close>

function chunks :: "nat \<Rightarrow> 'a list \<Rightarrow> 'a list list" where
  "chunks n xs = (if n = 0 \<or> xs = [] then [] else take n xs # chunks n (drop n xs))"
  by pat_completeness auto
termination
  by (relation "measure (\<lambda>(n, xs). length xs)") auto

declare chunks.simps [simp del]

text \<open>A collection of twelve records, named 00 to 11.\<close>

definition numbered :: "nat \<Rightarrow> Record" where
  "numbered i = Record_init (PStr [digit_char (i div 10), digit_char i]) PNone PNone"

definition book12 :: AddressBook where
  "book12 = foldl add_record AddressBook_init (map numbered [0..<12])"

text \<open>The (name, phones, birthday) tuples of a collection.\<close>

definition entries :: "AddressBook \<Rightarrow> (pyval \<times> pyval list \<times> pyval) set" where
  "entries b =
     set (map (\<lambda>r. (Name_get_value (name r), map Phone_get_value (phones r),
                     Birthday_get_value (birthday r)))
            (dict_values (data b)))"

section \<open>Fields: construction and assignment\<close>


lemma Phone_set_value_ok:
  "Phone_set_value p v = Inr p' \<Longrightarrow> p' = Phone v \<and> Phone_validate v = Inr ()"
  by (auto simp: Phone_set_value_def split: sum.splits)

lemma Birthday_set_value_ok:
  "Birthday_set_value parses b v = Inr b' \<Longrightarrow> b' = Birthday v \<and> Birthday_validate parses v = Inr ()"
  by (auto simp: Birthday_set_value_def split: sum.splits)

lemma Phone_set_value_fails:
  "Phone_validate v = Inl e \<Longrightarrow> Phone_set_value p v = Inl e"
  by (simp add: Phone_set_value_def)

text \<open>
  Claim C1. A phone of ten decimal digits is accepted, and every other string should be
  refused with an error that leaves the record's phone list as it was. The code does
  not do the second part: \<^verbatim>\<open>Phone("12345")\<close> and \<^verbatim>\<open>add_phone("12345")\<close> run no check,
  so the five-digit phone, which \<^verbatim>\<open>Phone.validate\<close> itself refuses, is appended.
\<close>

theorem add_phone_skips_validation:
  "phones (add_phone (Record_init (PStr ''Ann'') PNone PNone) (PStr ''12345''))
     = [Phone (PStr ''12345'')]
   \<and> Phone_get_value (Phone (PStr ''12345'')) = PStr ''12345''
   \<and> Phone_validate (PStr ''12345'') = Inl (ValueError ''Phone must be 10 digits long'')"
  by (simp add: add_phone_def Record_init_def isdigit_def isdigit_char_def)

text \<open>
  Claim C2. The value a field stores should at every moment be absent or satisfy the
  validation of its class. Assignment through \<^verbatim>\<open>set_value\<close> keeps that (see
  \<open>Phone_set_value_ok\<close>), but construction stores the argument unchecked: the phone
  field built from \<^verbatim>\<open>"abc"\<close> holds a value that \<^verbatim>\<open>Phone.validate\<close> refuses.
\<close>

theorem constructed_phone_breaks_invariant:
  "Phone_get_value (Phone (PStr ''abc'')) = PStr ''abc''
   \<and> Phone_validate (Phone_get_value (Phone (PStr ''abc'')))
       = Inl (ValueError ''Phone must contain only digits'')"
  by (simp add: isdigit_def isdigit_char_def)

section \<open>Days to the next birthday\<close>

lemma days_to_birthday_unset:
  "days_to_birthday today (Record_init nm ph PNone) = Inr None"
  by (simp add: days_to_birthday_def Record_init_def add_phone_def Let_def)

lemma days_to_birthday_of_string:
  "s \<noteq> [] \<Longrightarrow> days_to_birthday today (Record_init nm ph (PStr s)) = Inl AttributeError"
  by (simp add: days_to_birthday_def Record_init_def add_phone_def Let_def)

lemma days_to_birthday_empty_string:
  "days_to_birthday today (Record_init nm ph (PStr '''')) = Inr None"
  by (simp add: days_to_birthday_def Record_init_def add_phone_def Let_def)

text \<open>
  A birthday that is a \<^verbatim>\<open>datetime.date\<close> object, which only the unchecked constructor
  can store, is the one kind of value the method computes with: 130 days from
  2024-01-01 to the 10th of May, 0 on the day itself, 364 on the day after, and a
  \<^verbatim>\<open>ValueError\<close> for the 29th of February in a year that has none.
\<close>

lemmas date_defs = days_to_birthday_def Record_init_def Let_def date_new_def days_in_month_def
  is_leap_def date_gt_def days_between_def toordinal_def days_before_year_def days_before_month_def

lemma days_to_birthday_before:
  "days_to_birthday (Date 2024 1 1) (Record_init (PStr ''Alice'') PNone (PDate (Date 1990 5 10)))
     = Inr (Some 130)"
  by (simp add: date_defs)

lemma days_to_birthday_today:
  "days_to_birthday (Date 2024 5 10) (Record_init (PStr ''Alice'') PNone (PDate (Date 1990 5 10)))
     = Inr (Some 0)"
  by (simp add: date_defs)

lemma days_to_birthday_after:
  "days_to_birthday (Date 2024 5 11) (Record_init (PStr ''Alice'') PNone (PDate (Date 1990 5 10)))
     = Inr (Some 364)"
  by (simp add: date_defs)

lemma days_to_birthday_leap_day:
  "days_to_birthday (Date 2023 6 1) (Record_init (PStr ''Alice'') PNone (PDate (Date 2000 2 29)))
     = Inl (ValueError ''day is out of range for month'')"
  by (simp add: date_defs)

text \<open>
  Claim C3. With a birthday set, \<^verbatim>\<open>days_to_birthday\<close> should return the number of days
  from today to the next occurrence of the stored month and day. A birthday in the
  format that \<^verbatim>\<open>Birthday.validate\<close> asks for is a string, and the method reads its
  \<^verbatim>\<open>month\<close> attribute: for the record of Alice, born 1990-05-10, on 2024-01-01 it
  raises \<^verbatim>\<open>AttributeError\<close> where the claim asks for 130.
\<close>

theorem days_to_birthday_of_string_birthday:
  "days_to_birthday (Date 2024 1 1)
     (Record_init (PStr ''Alice'') PNone (PStr ''1990-05-10'')) = Inl AttributeError"
  by (simp add: days_to_birthday_def Record_init_def)

section \<open>Removing phones\<close>

text \<open>
  Claim C7. \<^verbatim>\<open>remove_phone\<close> keeps, in their order, exactly the phones whose rendering
  differs from the argument, and changes nothing else; it cannot raise; when no phone
  matches the record is unchanged; and a second call with the same argument changes
  nothing more.
\<close>

theorem remove_phone_idempotent:
  "phones (remove_phone r q) = filter (\<lambda>p. PStr (Phone_str p) \<noteq> q) (phones r)
   \<and> name (remove_phone r q) = name r
   \<and> birthday (remove_phone r q) = birthday r
   \<and> (list_all (\<lambda>p. PStr (Phone_str p) \<noteq> q) (phones r) \<longrightarrow> remove_phone r q = r)
   \<and> remove_phone (remove_phone r q) q = remove_phone r q"
  by (auto simp: remove_phone_def filter_id_conv list_all_iff)

theorem remove_phone_idempotent_witness:
  "phones (remove_phone
       \<lparr>name = Name (PStr ''Ann''),
        phones = [Phone (PStr ''1111111111''), Phone (PStr ''2222222222''), Phone (PStr ''1111111111'')],
        birthday = Birthday PNone\<rparr> (PStr ''1111111111''))
     = [Phone (PStr ''2222222222'')]
   \<and> remove_phone
       \<lparr>name = Name (PStr ''Ann''), phones = [Phone (PStr ''2222222222'')], birthday = Birthday PNone\<rparr>
       (PStr ''1111111111'')
     = \<lparr>name = Name (PStr ''Ann''), phones = [Phone (PStr ''2222222222'')], birthday = Birthday PNone\<rparr>"
  using remove_phone_idempotent
    [of "\<lparr>name = Name (PStr ''Ann''),
          phones = [Phone (PStr ''1111111111''), Phone (PStr ''2222222222''), Phone (PStr ''1111111111'')],
          birthday = Birthday PNone\<rparr>" "PStr ''1111111111''"]
    remove_phone_idempotent
    [of "\<lparr>name = Name (PStr ''Ann''), phones = [Phone (PStr ''2222222222'')], birthday = Birthday PNone\<rparr>"
        "PStr ''1111111111''"]
  by (simp add: Phone_str_def)

section \<open>Editing phones\<close>








section \<open>Adding records\<close>

lemma map_of_dict_set: "map_of (dict_set d k v) = (map_of d)(k \<mapsto> v)"
  by (induction d k v rule: dict_set.induct) auto

lemma dict_keys_dict_set:
  "dict_keys (dict_set d k v) = (if k \<in> set (dict_keys d) then dict_keys d else dict_keys d @ [k])"
  by (induction d k v rule: dict_set.induct) (auto simp: dict_keys_def)

lemma distinct_dict_set:
  "distinct (dict_keys d) \<Longrightarrow> distinct (dict_keys (dict_set d k v))"
  by (simp add: dict_keys_dict_set)

lemma dict_set_twice: "dict_set (dict_set d k v) k v' = dict_set d k v'"
  by (induction d k v rule: dict_set.induct) auto

text \<open>
  Claim C8. \<^verbatim>\<open>add_record\<close> stores the record under its name: afterwards the name maps
  to the record, every other key maps to what it did, the name is a new last key or
  keeps its place, and a second record of the same name replaces the first wholly
  (adding both is adding the second alone). In the scenario, after the two records
  named Bob, a search for the first phone finds nothing and a search for the second
  finds the second record.
\<close>

theorem add_record_overwrites:
  "map_of (data (add_record b r)) (Name_get_value (name r)) = Some r
   \<and> (\<forall>k. k \<noteq> Name_get_value (name r) \<longrightarrow> map_of (data (add_record b r)) k = map_of (data b) k)
   \<and> dict_keys (data (add_record b r))
       = (if Name_get_value (name r) \<in> set (dict_keys (data b)) then dict_keys (data b)
          else dict_keys (data b) @ [Name_get_value (name r)])
   \<and> (name r' = name r \<longrightarrow> add_record (add_record b r) r' = add_record b r')
   \<and> find_records_by_phone (add_record (add_record AddressBook_init bob1) bob2) (PStr ''1111111111'')
       = Inr []
   \<and> find_records_by_phone (add_record (add_record AddressBook_init bob1) bob2) (PStr ''2222222222'')
       = Inr [bob2]"
proof (intro conjI allI impI)
  show "map_of (data (add_record b r)) (Name_get_value (name r)) = Some r"
    by (simp add: add_record_def map_of_dict_set)
  show "map_of (data (add_record b r)) k = map_of (data b) k" if "k \<noteq> Name_get_value (name r)" for k
    using that by (simp add: add_record_def map_of_dict_set)
  show "dict_keys (data (add_record b r))
       = (if Name_get_value (name r) \<in> set (dict_keys (data b)) then dict_keys (data b)
          else dict_keys (data b) @ [Name_get_value (name r)])"
    by (simp add: add_record_def dict_keys_dict_set)
  show "add_record (add_record b r) r' = add_record b r'" if "name r' = name r"
    using that by (simp add: add_record_def dict_set_twice)
  show "find_records_by_phone (add_record (add_record AddressBook_init bob1) bob2) (PStr ''1111111111'')
       = Inr []"
    by (simp add: find_records_by_phone_def add_record_def AddressBook_init_def bob1_def bob2_def
        Record_init_def add_phone_def dict_values_def Phone_str_def)
  show "find_records_by_phone (add_record (add_record AddressBook_init bob1) bob2) (PStr ''2222222222'')
       = Inr [bob2]"
    by (simp add: find_records_by_phone_def add_record_def AddressBook_init_def bob1_def bob2_def
        Record_init_def add_phone_def dict_values_def Phone_str_def)
qed

theorem add_record_overwrites_witness:
  "map_of (data (add_record (add_record AddressBook_init bob1) bob2)) (PStr ''Bob'') = Some bob2
   \<and> map_of (data (add_record (add_record AddressBook_init bob1) bob2)) (PStr ''Alice'') = None
   \<and> dict_keys (data (add_record (add_record AddressBook_init bob1) bob2)) = [PStr ''Bob'']
   \<and> add_record (add_record AddressBook_init bob1) bob2 = add_record AddressBook_init bob2"
  using add_record_overwrites [of "add_record AddressBook_init bob1" bob2 bob2]
    add_record_overwrites [of AddressBook_init bob1 bob2]
  by (simp add: add_record_def AddressBook_init_def bob1_def bob2_def
        Record_init_def add_phone_def dict_keys_def)

section \<open>Searching\<close>

lemma startswith_prefix: "startswith s sub \<longleftrightarrow> prefix sub s"
  by (induction s sub rule: startswith.induct) auto

lemma str_contains_sublist: "str_contains s sub \<longleftrightarrow> sublist sub s"
  by (induction s) (simp_all add: startswith_prefix sublist_Cons_right)

lemma sublist_lower:
  "sublist (lower q) (lower s) \<longleftrightarrow> contains_ignoring_case s q"
proof
  assume "sublist (lower q) (lower s)"
  then obtain t where "sublist t s" "lower q = map lower_char t"
    unfolding lower_def using sublist_map_rightE by blast
  then show "contains_ignoring_case s q"
    by (auto simp: contains_ignoring_case_def list_ex_iff lower_def)
next
  assume "contains_ignoring_case s q"
  then obtain t where t: "sublist t s" "lower t = lower q"
    by (auto simp: contains_ignoring_case_def list_ex_iff)
  then obtain ps ss where "s = ps @ t @ ss" by (auto simp: sublist_def)
  then have "lower s = lower ps @ lower t @ lower ss" by (simp add: lower_def)
  with t show "sublist (lower q) (lower s)" by (metis sublist_appendI)
qed

lemma find_by_name_loop_filter:
  "list_all (\<lambda>r. is_str (Name_get_value (name r))) rs \<Longrightarrow>
   find_by_name_loop rs (PStr q)
     = Inr (filter (\<lambda>r. contains_ignoring_case (Name_str (name r)) q) rs)"
proof (induction rs)
  case Nil
  then show ?case by simp
next
  case (Cons r rs)
  then obtain n where n: "Name_get_value (name r) = PStr n"
    by (cases "Name_get_value (name r)") auto
  from Cons have "find_by_name_loop rs (PStr q)
     = Inr (filter (\<lambda>r. contains_ignoring_case (Name_str (name r)) q) rs)" by simp
  with n show ?case
    by (simp add: Name_str_def str_contains_sublist sublist_lower)
qed

lemma any_phone_ex:
  "any_phone ps (PStr q) = Inr (list_ex (\<lambda>p. sublist q (Phone_str p)) ps)"
  by (induction ps) (simp_all add: str_contains_sublist)

lemma find_by_phone_loop_filter:
  "find_by_phone_loop rs (PStr q)
     = Inr (filter (\<lambda>r. list_ex (\<lambda>p. sublist q (Phone_str p)) (phones r)) rs)"
  by (induction rs) (simp_all add: any_phone_ex)

lemma contains_ignoring_case_empty: "contains_ignoring_case s []"
  using sublist_lower [of "[]" s] by (simp add: lower_def)



text \<open>
  Claim C10. With the empty string as the query and every name a string,
  \<^verbatim>\<open>find_records_by_name\<close> returns every record of the collection, and
  \<^verbatim>\<open>find_records_by_phone\<close> returns exactly the records that have a phone.
\<close>

theorem find_records_empty_query:
  "(list_all (\<lambda>r. is_str (Name_get_value (name r))) (dict_values (data b)) \<longrightarrow>
      find_records_by_name b (PStr '''') = Inr (dict_values (data b)))
   \<and> find_records_by_phone b (PStr '''')
        = Inr (filter (\<lambda>r. phones r \<noteq> []) (dict_values (data b)))"
proof -
  have "list_ex (\<lambda>p. sublist [] (Phone_str p)) ps \<longleftrightarrow> ps \<noteq> []" for ps :: "Phone list"
    by (cases ps) simp_all
  then show ?thesis
    by (simp add: find_records_by_name_def find_records_by_phone_def
        find_by_name_loop_filter find_by_phone_loop_filter contains_ignoring_case_empty)
qed

theorem find_records_empty_query_witness:
  "list_all (\<lambda>r. is_str (Name_get_value (name r))) (dict_values (data example_book))
   \<and> find_records_by_name example_book (PStr '''') = Inr [alice, carol, bob1]
   \<and> find_records_by_phone example_book (PStr '''') = Inr [alice, bob1]"
  using find_records_empty_query [of example_book]
  by (simp add: example_book_def add_record_def
        AddressBook_init_def alice_def carol_def bob1_def
        Record_init_def add_phone_def dict_values_def)

section \<open>Pages\<close>

lemma chunks_Nil: "chunks n [] = []"
  by (simp add: chunks.simps)

lemma chunks_step:
  "0 < n \<Longrightarrow> xs \<noteq> [] \<Longrightarrow> chunks n xs = take n xs # chunks n (drop n xs)"
  by (subst chunks.simps) simp

lemma concat_chunks: "0 < n \<Longrightarrow> concat (chunks n xs) = xs"
proof (induction n xs rule: chunks.induct)
  case (1 n xs)
  show ?case
  proof (cases "xs = []")
    case True
    then show ?thesis by (simp add: chunks_Nil)
  next
    case False
    with 1 show ?thesis by (simp add: chunks_step)
  qed
qed

lemma chunks_sizes:
  "0 < n \<Longrightarrow> list_all (\<lambda>page. 0 < length page \<and> length page \<le> n) (chunks n xs)"
proof (induction n xs rule: chunks.induct)
  case (1 n xs)
  show ?case
  proof (cases "xs = []")
    case True
    then show ?thesis by (simp add: chunks_Nil)
  next
    case False
    with 1 show ?thesis by (simp add: chunks_step)
  qed
qed

lemma chunks_full:
  "0 < n \<Longrightarrow> list_all (\<lambda>page. length page = n) (butlast (chunks n xs))"
proof (induction n xs rule: chunks.induct)
  case (1 n xs)
  show ?case
  proof (cases "xs = []")
    case True
    then show ?thesis by (simp add: chunks_Nil)
  next
    case False
    note ne = this
    show ?thesis
    proof (cases "drop n xs = []")
      case True
      with ne 1 show ?thesis by (simp add: chunks_step chunks_Nil)
    next
      case False
      then have "chunks n (drop n xs) \<noteq> []" using 1(2) by (simp add: chunks_step)
      moreover from False have "n < length xs" by simp
      ultimately show ?thesis using ne 1 by (simp add: chunks_step)
    qed
  qed
qed

lemma chunks_12: "length xs = 12 \<Longrightarrow> map length (chunks 5 xs) = [5, 5, 2]"
proof -
  assume l: "length xs = 12"
  then have 1: "chunks 5 xs = take 5 xs # chunks 5 (drop 5 xs)"
    by (intro chunks_step) auto
  from l have 2: "chunks 5 (drop 5 xs) = take 5 (drop 5 xs) # chunks 5 (drop 5 (drop 5 xs))"
    by (intro chunks_step) auto
  from l have 3: "chunks 5 (drop 5 (drop 5 xs))
      = take 5 (drop 5 (drop 5 xs)) # chunks 5 (drop 5 (drop 5 (drop 5 xs)))"
    by (intro chunks_step) auto
  from l have 4: "drop 5 (drop 5 (drop 5 xs)) = []" by simp
  show ?thesis
    unfolding 1 2 3 4 using l by (simp add: chunks_Nil)
qed

lemma getitems_keys:
  "distinct (map fst d) \<Longrightarrow> set xs \<subseteq> set d \<Longrightarrow> getitems d (map fst xs) = Inr (map snd xs)"
proof (induction xs)
  case Nil
  then show ?case by simp
next
  case (Cons x xs)
  from Cons.prems have m: "map_of d (fst x) = Some (snd x)" by (cases x) simp
  from Cons have "getitems d (map fst xs) = Inr (map snd xs)" by simp
  with m show ?case by simp
qed

lemma getitems_slice:
  assumes "distinct (map fst d)"
  shows "getitems d (take n (drop i (map fst d))) = Inr (take n (drop i (map snd d)))"
proof -
  have "set (take n (drop i d)) \<subseteq> set d"
    by (meson set_take_subset set_drop_subset subset_trans)
  with assms have "getitems d (map fst (take n (drop i d))) = Inr (map snd (take n (drop i d)))"
    by (rule getitems_keys)
  then show ?thesis by (simp add: take_map drop_map)
qed

lemma next_loop_chunks:
  "distinct (dict_keys (data b)) \<Longrightarrow> cursor b = Some c \<Longrightarrow> keys c = dict_keys (data b) \<Longrightarrow>
   page_size c = n \<Longrightarrow> 0 < n \<Longrightarrow> length (data b) - iter_index c < fuel \<Longrightarrow>
   \<exists>b'. next_loop fuel b = Some (Inr (chunks n (drop (iter_index c) (dict_values (data b))), b'))
        \<and> data b' = data b"
proof (induction fuel arbitrary: b c)
  case 0
  then show ?case by simp
next
  case (Suc fuel)
  show ?case
  proof (cases "iter_index c \<ge> length (data b)")
    case True
    with Suc.prems have "next b = Inl StopIteration"
      by (simp add: next_def dict_keys_def)
    with True show ?thesis by (simp add: chunks_Nil dict_values_def)
  next
    case False
    define recs where "recs = take n (drop (iter_index c) (dict_values (data b)))"
    define b1 where "b1 = b\<lparr>cursor := Some (c\<lparr>iter_index := iter_index c + n\<rparr>)\<rparr>"
    from Suc.prems(1) have "getitems (data b) (take n (drop (iter_index c) (dict_keys (data b)))) = Inr recs"
      unfolding recs_def dict_keys_def dict_values_def by (rule getitems_slice)
    with False Suc.prems have nx: "next b = Inr (recs, b1)"
      by (simp add: next_def dict_keys_def b1_def)
    have "\<exists>b'. next_loop fuel b1
             = Some (Inr (chunks n (drop (iter_index c + n) (dict_values (data b1))), b'))
           \<and> data b' = data b1"
      using Suc.prems False
      by (intro Suc.IH [of b1 "c\<lparr>iter_index := iter_index c + n\<rparr>", simplified]) (auto simp: b1_def)
    then obtain b' where b': "next_loop fuel b1
             = Some (Inr (chunks n (drop (iter_index c + n) (dict_values (data b))), b'))"
      "data b' = data b" by (auto simp: b1_def)
    from False have ne: "drop (iter_index c) (dict_values (data b)) \<noteq> []"
      by (simp add: dict_values_def)
    have "chunks n (drop (iter_index c) (dict_values (data b)))
        = recs # chunks n (drop (iter_index c + n) (dict_values (data b)))"
      using chunks_step [OF \<open>0 < n\<close> ne] by (simp add: recs_def add.commute)
    with nx b' show ?thesis by simp
  qed
qed

lemma for_pages_chunks:
  assumes "distinct (dict_keys (data b))" and "length (data b) < fuel"
  shows "\<exists>b'. for_pages fuel b = Some (Inr (chunks 5 (dict_values (data b)), b')) \<and> data b' = data b"
  using next_loop_chunks [of "iter b" "\<lparr>iter_index = 0, page_size = 5, keys = dict_keys (data b)\<rparr>" 5 fuel] assms
  by (simp add: for_pages_def iter_def)

lemma next_data: "next b = Inr (page, b1) \<Longrightarrow> data b1 = data b"
  by (auto simp: next_def split: option.splits if_splits sum.splits)

text \<open>
  Claim C5. A \<^verbatim>\<open>for\<close> loop over the address book ends (any fuel above the number of
  records is enough) and yields the records in key order cut into pages of five:
  the pages put together are the records, each once; no page is empty or longer than
  five and all but the last hold exactly five; twelve records give pages of 5, 5 and
  2. The loop starts from the first record whatever the cursor was before, also
  after an earlier iteration was left after its first page.
\<close>

theorem pagination_spec:
  assumes "distinct (dict_keys (data b))" and "length (data b) < fuel"
  shows "(\<exists>b'. for_pages fuel b = Some (Inr (chunks 5 (dict_values (data b)), b')))
    \<and> concat (chunks 5 (dict_values (data b))) = dict_values (data b)
    \<and> list_all (\<lambda>page. 0 < length page \<and> length page \<le> 5) (chunks 5 (dict_values (data b)))
    \<and> list_all (\<lambda>page. length page = 5) (butlast (chunks 5 (dict_values (data b))))
    \<and> (length (data b) = 12 \<longrightarrow> map length (chunks 5 (dict_values (data b))) = [5, 5, 2])
    \<and> for_pages fuel (b\<lparr>cursor := c\<rparr>) = for_pages fuel b
    \<and> (\<forall>page b1. next (iter b) = Inr (page, b1) \<longrightarrow>
          (\<exists>b2. for_pages fuel b1 = Some (Inr (chunks 5 (dict_values (data b)), b2))))"
proof (intro conjI allI impI)
  show "\<exists>b'. for_pages fuel b = Some (Inr (chunks 5 (dict_values (data b)), b'))"
    using for_pages_chunks [OF assms] by blast
  show "concat (chunks 5 (dict_values (data b))) = dict_values (data b)"
    by (simp add: concat_chunks)
  show "list_all (\<lambda>page. 0 < length page \<and> length page \<le> 5) (chunks 5 (dict_values (data b)))"
    by (rule chunks_sizes) simp
  show "list_all (\<lambda>page. length page = 5) (butlast (chunks 5 (dict_values (data b))))"
    by (rule chunks_full) simp
  show "map length (chunks 5 (dict_values (data b))) = [5, 5, 2]" if "length (data b) = 12"
    using that by (simp add: chunks_12 dict_values_def)
  show "for_pages fuel (b\<lparr>cursor := c\<rparr>) = for_pages fuel b"
    by (simp add: for_pages_def iter_def)
next
  fix page b1
  assume "next (iter b) = Inr (page, b1)"
  then have "data b1 = data b" using next_data [of "iter b" page b1] by (simp add: iter_def)
  with assms for_pages_chunks [of b1 fuel]
  show "\<exists>b2. for_pages fuel b1 = Some (Inr (chunks 5 (dict_values (data b)), b2))"
    by auto
qed

theorem pagination_spec_witness:
  "distinct (dict_keys (data book12)) \<and> length (data book12) < 13
   \<and> (\<exists>b'. for_pages 13 book12 = Some (Inr (chunks 5 (dict_values (data book12)), b')))
   \<and> concat (chunks 5 (dict_values (data book12))) = map numbered [0..<12]
   \<and> map length (chunks 5 (dict_values (data book12))) = [5, 5, 2]"
proof -
  have d: "distinct (dict_keys (data book12))" by code_simp
  have l: "length (data book12) = 12" by code_simp
  then have f: "length (data book12) < 13" by simp
  have v: "dict_values (data book12) = map numbered [0..<12]" by code_simp
  show ?thesis
    using pagination_spec [OF d f] d l v by simp
qed

section \<open>Saving and loading\<close>

lemma load_missing_file:
  "dsk filename = None \<Longrightarrow> load_from_file loads b filename dsk = Inr (b\<lparr>data := []\<rparr>)"
  by (simp add: load_from_file_def)

text \<open>
  Claim C4. When \<^verbatim>\<open>pickle\<close> gives back the dictionary it was given and
  \<^verbatim>\<open>save_to_file\<close> did not raise, \<^verbatim>\<open>load_from_file\<close> on the same path succeeds and
  leaves the loading address book with the saved dictionary, so with the same set of
  (name, phones, birthday) tuples.
\<close>

theorem save_load_roundtrip:
  assumes "loads (dumps (data b)) = Inr (data b)"
    and "save_to_file dumps b filename dsk = Inr dsk'"
  shows "load_from_file loads b0 filename dsk' = Inr (b0\<lparr>data := data b\<rparr>)
    \<and> entries (b0\<lparr>data := data b\<rparr>) = entries b"
  using assms
  by (auto simp: save_to_file_def load_from_file_def entries_def
      split: option.splits node.splits)

theorem save_load_roundtrip_witness:
  "save_to_file (\<lambda>d. d) example_book ''address_book.pkl'' (\<lambda>p. None)
     = Inr ((\<lambda>p. None)(''address_book.pkl'' \<mapsto> File (data example_book)))
   \<and> load_from_file Inr AddressBook_init ''address_book.pkl''
       ((\<lambda>p. None)(''address_book.pkl'' \<mapsto> File (data example_book)))
     = Inr (AddressBook_init\<lparr>data := data example_book\<rparr>)
   \<and> entries (AddressBook_init\<lparr>data := data example_book\<rparr>) = entries example_book"
proof -
  have s: "save_to_file (\<lambda>d. d) example_book ''address_book.pkl'' (\<lambda>p. None)
     = Inr ((\<lambda>p. None)(''address_book.pkl'' \<mapsto> File (data example_book)))"
    by (simp add: save_to_file_def)
  have c: "Inr ((\<lambda>d. d) (data example_book)) = (Inr (data example_book) :: py_error + pydict)"
    by simp
  show ?thesis
    using s save_load_roundtrip [of Inr "\<lambda>d. d" example_book "''address_book.pkl''" "\<lambda>p. None"
        "(\<lambda>p. None)(''address_book.pkl'' \<mapsto> File (data example_book))" AddressBook_init, OF c s]
    by simp
qed

end
